theory Spec2Isabelle
  imports Complex_Main
begin

section \<open>Global map click handling: data model\<close>

text \<open>
  The hook \<open>useGlobalClick\<close> wires one click listener onto a map instance. Its three
  closures are embedded here: the feature query adapter \<open>queryInteractiveFeatures\<close>,
  the click handler \<open>handleGlobalClick\<close>, and the registration effect with its cleanup.

  A script number is either not-a-number or a value; the handler only compares numbers
  with \<open><=\<close> and copies them, and a comparison with not-a-number is false.
\<close>

datatype number = NaN | Number real

fun js_le :: "number \<Rightarrow> number \<Rightarrow> bool" where
  "js_le (Number a) (Number b) = (a \<le> b)"
| "js_le _ _ = False"

text \<open>
  A rendered feature as the handler reads it: \<open>feature.layer?.id\<close>,
  \<open>feature.geometry?.type\<close>, the coordinates of a point geometry, and whatever else
  the extractors read (\<open>properties\<close>).
\<close>

record LayerSpecification =
  layer_id :: string

record Geometry =
  geometry_type :: string
  geometry_coordinates :: "number list"

record 'p Feature =
  layer :: "LayerSpecification option"
  geometry :: "Geometry option"
  properties :: 'p

record LngLat =
  lng :: number
  lat :: number

text \<open>
  The click event: the screen point, the geographic position, and whether the native
  event is there (\<open>e.originalEvent?.\<close>).
\<close>

record MapMouseEvent =
  point :: "number \<times> number"
  lngLat :: LngLat
  originalEvent :: bool

text \<open>
  \<open>LocationInfo\<close>: the coordinates, and the category-specific fields that only the
  extractors and the callback look at.
\<close>

record 'd LocationInfo =
  coordinates :: "number list"
  details :: 'd

record PanelState =
  isOpen :: bool
  isFullscreen :: bool
  showOverview :: bool

text \<open>
  What the handler asks of the map instance at the time of a click.
\<close>

record 'p MapInstance =
  isStyleLoaded :: bool
  getZoom :: number
  queryRenderedFeatures :: "number \<times> number \<Rightarrow> string list \<Rightarrow> 'p Feature list"

text \<open>
  The collaborators imported by the hook: the zoom policy, the two layer id lists and
  the two extractors. \<open>getInteractionLayerIds\<close> is what the registry answers during
  the click.
\<close>

record ('p, 'd) Collaborators =
  canInteract :: "number \<Rightarrow> string \<Rightarrow> bool"
  unclusteredLayerIds :: "string list"
  getInteractionLayerIds :: "string list"
  getBuildingLocationInfo :: "'p Feature \<Rightarrow> 'd LocationInfo"
  getHistoricalLocationInfo :: "'p Feature \<Rightarrow> 'd LocationInfo"

text \<open>
  The hook's arguments. The detail callback is caller-supplied code: it receives the
  record and may itself write the panel store.
\<close>

record ('p, 'd) GlobalClickProps =
  mapInstance :: "'p MapInstance option"
  onShowDetailedInfo :: "('d LocationInfo \<Rightarrow> PanelState \<Rightarrow> PanelState) option"
  minZoomLevel :: "number option"

definition minZoomLevelOf :: "('p, 'd) GlobalClickProps \<Rightarrow> number" where
  "minZoomLevelOf props = (case minZoomLevel props of None \<Rightarrow> Number 17 | Some z \<Rightarrow> z)"

subsection \<open>Effects\<close>

text \<open>
  Everything a click does besides returning: a write of the panel store (the partial
  state passed to \<open>setState\<close>), the spatial query, the four calls that claim the event,
  the extractor calls, the console warning and the detail callback, in the order they
  happen.
\<close>

datatype ('p, 'd) effect =
    PanelSetState "bool option" "bool option" "bool option"
  | QueryRenderedFeatures "number \<times> number" "string list"
  | PreventDefault
  | OriginalPreventDefault
  | OriginalStopPropagation
  | OriginalStopImmediatePropagation
  | CallBuildingExtractor "'p Feature"
  | CallHistoricalExtractor "'p Feature"
  | ConsoleWarnLayer string
  | ShowDetailedInfo "'d LocationInfo"

record ('p, 'd) world =
  store :: PanelState
  effects :: "('p, 'd) effect list"

datatype handled = ReturnUndefined | ReturnFalse

definition emit :: "('p, 'd) effect \<Rightarrow> ('p, 'd) world \<Rightarrow> ('p, 'd) world" where
  "emit x w = w\<lparr>effects := effects w @ [x]\<rparr>"

text \<open>\<open>usePanelStore.setState\<close> merges the given fields into the store.\<close>

definition setState ::
  "bool option \<Rightarrow> bool option \<Rightarrow> bool option \<Rightarrow> ('p, 'd) world \<Rightarrow> ('p, 'd) world" where
  "setState o' f v w =
     emit (PanelSetState o' f v)
       (w\<lparr>store := (store w)\<lparr>
            isOpen := (case o' of None \<Rightarrow> isOpen (store w) | Some b \<Rightarrow> b),
            isFullscreen := (case f of None \<Rightarrow> isFullscreen (store w) | Some b \<Rightarrow> b),
            showOverview := (case v of None \<Rightarrow> showOverview (store w) | Some b \<Rightarrow> b)\<rparr>\<rparr>)"

section \<open>The feature query adapter\<close>

text \<open>
  \<open>queryInteractiveFeatures\<close>: the empty array when no layer id is interactive;
  otherwise \<open>mapInstance?.queryRenderedFeatures(point, {layers})\<close>, which is
  \<open>undefined\<close> (\<open>None\<close>) without a map instance.
\<close>

definition queryInteractiveFeatures ::
  "('p, 'd) Collaborators \<Rightarrow> 'p MapInstance option \<Rightarrow> number \<times> number \<Rightarrow>
     ('p, 'd) world \<Rightarrow> 'p Feature list option \<times> ('p, 'd) world" where
  "queryInteractiveFeatures env mi pt w =
     (let interactiveLayerIds = unclusteredLayerIds env @ getInteractionLayerIds env in
      if length interactiveLayerIds = 0 then (Some [], w)
      else (case mi of
              None \<Rightarrow> (None, w)
            | Some m \<Rightarrow>
                (Some (queryRenderedFeatures m pt interactiveLayerIds),
                 emit (QueryRenderedFeatures pt interactiveLayerIds) w)))"

section \<open>The click handler\<close>

text \<open>The four calls of lines 88 to 91; the last three only with a native event.\<close>

definition claimEvent :: "MapMouseEvent \<Rightarrow> ('p, 'd) world \<Rightarrow> ('p, 'd) world" where
  "claimEvent e w =
     (let w1 = emit PreventDefault w in
      if originalEvent e
      then emit OriginalStopImmediatePropagation
             (emit OriginalStopPropagation (emit OriginalPreventDefault w1))
      else w1)"

definition displayCoordinates :: "'p Feature \<Rightarrow> MapMouseEvent \<Rightarrow> number list" where
  "displayCoordinates feature e =
     (case geometry feature of
        None \<Rightarrow> [lng (lngLat e), lat (lngLat e)]
      | Some g \<Rightarrow>
          if geometry_type g = ''Point'' then geometry_coordinates g
          else [lng (lngLat e), lat (lngLat e)])"

text \<open>
  The part of the handler under \<open>if (layerId)\<close>: claim the event, compute the
  coordinates, classify, extract, overwrite the coordinates, call back.
\<close>

definition dispatchFeature ::
  "('p, 'd) Collaborators \<Rightarrow> ('d LocationInfo \<Rightarrow> PanelState \<Rightarrow> PanelState) \<Rightarrow>
     MapMouseEvent \<Rightarrow> 'p Feature \<Rightarrow> string \<Rightarrow> ('p, 'd) world \<Rightarrow> handled \<times> ('p, 'd) world" where
  "dispatchFeature env callback e feature layerId w =
     (let w1 = claimEvent e w;
          coords = displayCoordinates feature e in
      if layerId \<in> set (unclusteredLayerIds env) then
        (let w2 = emit (CallBuildingExtractor feature) w1;
             locationInfo = (getBuildingLocationInfo env feature)\<lparr>coordinates := coords\<rparr>;
             w3 = emit (ShowDetailedInfo locationInfo) w2
         in (ReturnFalse, w3\<lparr>store := callback locationInfo (store w3)\<rparr>))
      else if layerId \<in> set (getInteractionLayerIds env) then
        (let w2 = emit (CallHistoricalExtractor feature) w1;
             locationInfo = (getHistoricalLocationInfo env feature)\<lparr>coordinates := coords\<rparr>;
             w3 = emit (ShowDetailedInfo locationInfo) w2
         in (ReturnFalse, w3\<lparr>store := callback locationInfo (store w3)\<rparr>))
      else (ReturnFalse, emit (ConsoleWarnLayer layerId) w1))"

text \<open>
  The test of line 78, \<open>!interactiveFeatures || interactiveFeatures.length === 0\<close>:
  what the handler takes for a query without result.
\<close>

definition noFeatures :: "'a list option \<Rightarrow> bool" where
  "noFeatures interactiveFeatures =
     (case interactiveFeatures of None \<Rightarrow> True | Some fs \<Rightarrow> length fs = 0)"

text \<open>
  \<open>handleGlobalClick\<close>, guard by guard. A layer id is falsy when the feature has no
  layer or the id is the empty string. Past the test of line 78 the array has a first
  element, so the last case of the inner distinction is never taken.
\<close>

definition handleGlobalClick ::
  "('p, 'd) Collaborators \<Rightarrow> ('p, 'd) GlobalClickProps \<Rightarrow> MapMouseEvent \<Rightarrow> PanelState \<Rightarrow>
     handled \<times> ('p, 'd) world" where
  "handleGlobalClick env props e ps =
     (let w = \<lparr>store = ps, effects = []\<rparr> in
      case mapInstance props of
        None \<Rightarrow> (ReturnUndefined, w)
      | Some m \<Rightarrow>
      (case onShowDetailedInfo props of
        None \<Rightarrow> (ReturnUndefined, w)
      | Some callback \<Rightarrow>
      if \<not> isStyleLoaded m then (ReturnUndefined, w)
      else
        let currentZoom = getZoom m in
        if \<not> canInteract env currentZoom ''minZoomForLabelClicks''
           \<or> js_le currentZoom (minZoomLevelOf props)
        then (ReturnUndefined, w)
        else if isOpen (store w) \<and> \<not> isFullscreen (store w)
        then (ReturnFalse, setState None (Some True) (Some True) w)
        else
          (case queryInteractiveFeatures env (mapInstance props) (point e) w of
             (interactiveFeatures, w1) \<Rightarrow>
               if noFeatures interactiveFeatures then (ReturnUndefined, w1)
               else
                 (case interactiveFeatures of
                    Some (feature # _) \<Rightarrow>
                      (case layer feature of
                         None \<Rightarrow> (ReturnUndefined, w1)
                       | Some l \<Rightarrow>
                           if layer_id l = [] then (ReturnUndefined, w1)
                           else dispatchFeature env callback e feature (layer_id l) w1)
                  | _ \<Rightarrow> (ReturnUndefined, w1)))))"

section \<open>Registration and teardown\<close>

text \<open>
  The effect of lines 121 to 156 attaches the click handler to the map instance and
  returns a cleanup. The map instance is a shared object that \<open>on\<close>, \<open>once\<close> and
  \<open>off\<close> mutate, so the maps live in a store indexed by reference. A listener is
  the identity of one \<open>handleGlobalClick\<close> closure: \<open>useCallback\<close> yields a new one
  whenever the map instance, the callback or the minimum zoom changes.
\<close>

type_synonym listener = nat
type_synonym map_ref = nat

text \<open>
  The part of a map instance that registration touches: what \<open>isStyleLoaded()\<close>
  answers now, the click listeners attached by \<open>on\<close>, and the pending one-shot
  \<open>style.load\<close> subscriptions made by \<open>once\<close>. Each such subscription is the closure
  of lines 133 to 137, named by the click handler it will attach.
\<close>

record MapEvented =
  styleLoaded :: bool
  clickListeners :: "listener list"
  styleLoadOnce :: "listener list"

datatype 'x console = ConsoleLogCleaned | ConsoleWarnCleanupFailed 'x

record 'x hook_state =
  hasRegisteredRef :: bool
  maps :: "map_ref \<Rightarrow> MapEvented"
  console :: "'x console list"

subsection \<open>The map library's listener tables\<close>

text \<open>
  The contract of the map library that the effect relies on: \<open>on\<close> appends a listener
  unless that very listener is already attached, \<open>once\<close> does the same in the table of
  one-shot listeners, \<open>off\<close> removes the listener.
\<close>

definition map_on :: "listener \<Rightarrow> MapEvented \<Rightarrow> MapEvented" where
  "map_on h m =
     (if h \<in> set (clickListeners m) then m else m\<lparr>clickListeners := clickListeners m @ [h]\<rparr>)"

definition map_once_style_load :: "listener \<Rightarrow> MapEvented \<Rightarrow> MapEvented" where
  "map_once_style_load h m =
     (if h \<in> set (styleLoadOnce m) then m else m\<lparr>styleLoadOnce := styleLoadOnce m @ [h]\<rparr>)"

definition map_off :: "listener \<Rightarrow> MapEvented \<Rightarrow> 'x option \<times> MapEvented" where
  "map_off h m = (None, m\<lparr>clickListeners := removeAll h (clickListeners m)\<rparr>)"

subsection \<open>Statements that may throw\<close>

text \<open>
  A statement maps a state to the state it leaves and to the exception it threw, if
  any. Sequencing stops at a throw; \<open>try_catch\<close> hands the exception to the handler.
\<close>

type_synonym ('x, 's) stmt = "'s \<Rightarrow> 'x option \<times> 's"

definition skip :: "('x, 's) stmt" where
  "skip s = (None, s)"

definition assign :: "('s \<Rightarrow> 's) \<Rightarrow> ('x, 's) stmt" where
  "assign f s = (None, f s)"

definition then_do :: "('x, 's) stmt \<Rightarrow> ('x, 's) stmt \<Rightarrow> ('x, 's) stmt" where
  "then_do a b s = (case a s of (Some x, s') \<Rightarrow> (Some x, s') | (None, s') \<Rightarrow> b s')"

definition try_catch :: "('x, 's) stmt \<Rightarrow> ('x \<Rightarrow> ('x, 's) stmt) \<Rightarrow> ('x, 's) stmt" where
  "try_catch a handler s = (case a s of (Some x, s') \<Rightarrow> handler x s' | (None, s') \<Rightarrow> (None, s'))"

definition if_then :: "('s \<Rightarrow> bool) \<Rightarrow> ('x, 's) stmt \<Rightarrow> ('x, 's) stmt" where
  "if_then c a s = (if c s then a s else skip s)"

subsection \<open>The effect and its cleanup\<close>

definition attachClick :: "map_ref \<Rightarrow> listener \<Rightarrow> 'x hook_state \<Rightarrow> 'x hook_state" where
  "attachClick mi h s =
     (s\<lparr>maps := (maps s)(mi := map_on h (maps s mi))\<rparr>)\<lparr>hasRegisteredRef := True\<rparr>"

definition registerEvents :: "map_ref \<Rightarrow> listener \<Rightarrow> 'x hook_state \<Rightarrow> 'x hook_state" where
  "registerEvents mi h s =
     (if styleLoaded (maps s mi) then attachClick mi h s
      else s\<lparr>maps := (maps s)(mi := map_once_style_load h (maps s mi))\<rparr>)"

text \<open>
  The body of the effect. It returns the state and the cleanup it hands back, which
  closes over the map instance and the handler; the early return hands back none.
\<close>

definition registrationEffect ::
  "map_ref option \<Rightarrow> listener \<Rightarrow> 'x hook_state \<Rightarrow> 'x hook_state \<times> (map_ref \<times> listener) option" where
  "registrationEffect mapInst h s =
     (case mapInst of
        None \<Rightarrow> (s, None)
      | Some mi \<Rightarrow>
          if hasRegisteredRef s then (s, None)
          else (registerEvents mi h s, Some (mi, h)))"

text \<open>
  The cleanup of lines 144 to 155, over any \<open>off\<close>: one that may throw, and may leave
  the map in any state when it does.
\<close>

definition callOff ::
  "(listener \<Rightarrow> MapEvented \<Rightarrow> 'x option \<times> MapEvented) \<Rightarrow> map_ref \<Rightarrow> listener \<Rightarrow>
     ('x, 'x hook_state) stmt" where
  "callOff off mi h s =
     (case off h (maps s mi) of (r, m') \<Rightarrow> (r, s\<lparr>maps := (maps s)(mi := m')\<rparr>))"

definition consoleWrite :: "'x console \<Rightarrow> ('x, 'x hook_state) stmt" where
  "consoleWrite entry = assign (\<lambda>s. s\<lparr>console := console s @ [entry]\<rparr>)"

definition cleanup ::
  "(listener \<Rightarrow> MapEvented \<Rightarrow> 'x option \<times> MapEvented) \<Rightarrow> map_ref \<Rightarrow> listener \<Rightarrow>
     ('x, 'x hook_state) stmt" where
  "cleanup off mi h =
     then_do
       (if_then hasRegisteredRef
          (try_catch
             (then_do (callOff off mi h) (consoleWrite ConsoleLogCleaned))
             (\<lambda>error. consoleWrite (ConsoleWarnCleanupFailed error))))
       (assign (\<lambda>s. s\<lparr>hasRegisteredRef := False\<rparr>))"

subsection \<open>The hook inside its host\<close>

text \<open>
  The host framework re-runs an effect when its dependencies (the map instance and the
  handler) change: first the cleanup the last run handed back, if any, then the effect.
  Unmounting runs that cleanup. The map library, on \<open>style.load\<close>, empties its table of
  one-shot listeners and calls each of them in the order they subscribed.
\<close>

record 'x component =
  hook :: "'x hook_state"
  deps :: "(map_ref option \<times> listener) option"
  pendingCleanup :: "(map_ref \<times> listener) option"

datatype lifecycle =
    Render "map_ref option" listener
  | Unmount
  | StyleLoad map_ref
  | SetStyleLoaded map_ref bool

definition runPendingCleanup :: "'x component \<Rightarrow> 'x hook_state" where
  "runPendingCleanup c =
     (case pendingCleanup c of
        None \<Rightarrow> hook c
      | Some (mi, h) \<Rightarrow> snd (cleanup map_off mi h (hook c)))"

definition fireStyleLoad :: "map_ref \<Rightarrow> 'x hook_state \<Rightarrow> 'x hook_state" where
  "fireStyleLoad mi s =
     (let pending = styleLoadOnce (maps s mi);
          s1 = s\<lparr>maps := (maps s)(mi := (maps s mi)\<lparr>styleLoaded := True, styleLoadOnce := []\<rparr>)\<rparr>
      in fold (attachClick mi) pending s1)"

fun step :: "'x component \<Rightarrow> lifecycle \<Rightarrow> 'x component" where
  "step c (Render mapInst h) =
     (if deps c = Some (mapInst, h) then c
      else (case registrationEffect mapInst h (runPendingCleanup c) of
              (s, cl) \<Rightarrow> \<lparr>hook = s, deps = Some (mapInst, h), pendingCleanup = cl\<rparr>))"
| "step c Unmount = \<lparr>hook = runPendingCleanup c, deps = None, pendingCleanup = None\<rparr>"
| "step c (StyleLoad mi) = c\<lparr>hook := fireStyleLoad mi (hook c)\<rparr>"
| "step c (SetStyleLoaded mi b) =
     c\<lparr>hook := (hook c)\<lparr>maps := (maps (hook c))(mi := (maps (hook c) mi)\<lparr>styleLoaded := b\<rparr>)\<rparr>\<rparr>"

definition run :: "lifecycle list \<Rightarrow> 'x component \<Rightarrow> 'x component" where
  "run evs c = foldl step c evs"

definition mounting :: "bool \<Rightarrow> 'x component" where
  "mounting loaded =
     \<lparr>hook = \<lparr>hasRegisteredRef = False,
              maps = (\<lambda>_. \<lparr>styleLoaded = loaded, clickListeners = [], styleLoadOnce = []\<rparr>),
              console = []\<rparr>,
      deps = None, pendingCleanup = None\<rparr>"

section \<open>The branches of the click handler, as the specification lists them\<close>

text \<open>
  The specification names the ways a click can end. \<open>clickBranch\<close> follows its list
  (steps 1 to 12 of the click handling algorithm), not the handler's code; the handler
  is compared with it below.
\<close>

datatype branch =
    NoMapInstance
  | MissingCallback
  | StyleNotLoaded
  | ZoomGateFailed
  | PanelExpand
  | NoFeatureFound
  | UnresolvableLayerId
  | UnclassifiedLayer
  | Success

definition clickBranch ::
  "('p, 'd) Collaborators \<Rightarrow> ('p, 'd) GlobalClickProps \<Rightarrow> MapMouseEvent \<Rightarrow> PanelState \<Rightarrow> branch" where
  "clickBranch env props e ps =
     (case mapInstance props of
        None \<Rightarrow> NoMapInstance
      | Some m \<Rightarrow>
          if onShowDetailedInfo props = None then MissingCallback
          else if \<not> isStyleLoaded m then StyleNotLoaded
          else if \<not> (canInteract env (getZoom m) ''minZoomForLabelClicks''
                      \<and> \<not> js_le (getZoom m) (minZoomLevelOf props)) then ZoomGateFailed
          else if isOpen ps \<and> \<not> isFullscreen ps then PanelExpand
          else if unclusteredLayerIds env @ getInteractionLayerIds env = [] then NoFeatureFound
          else
            (case queryRenderedFeatures m (point e)
                    (unclusteredLayerIds env @ getInteractionLayerIds env) of
               [] \<Rightarrow> NoFeatureFound
             | feature # _ \<Rightarrow>
                 (case layer feature of
                    None \<Rightarrow> UnresolvableLayerId
                  | Some l \<Rightarrow>
                      if layer_id l = [] then UnresolvableLayerId
                      else if layer_id l \<in> set (unclusteredLayerIds env)
                              \<or> layer_id l \<in> set (getInteractionLayerIds env) then Success
                      else UnclassifiedLayer)))"

section \<open>Sample inputs\<close>

text \<open>
  A registry with two building layers and two historical layers (one id in both), a
  point feature on a building layer, a polygon on the shared layer, a feature on a layer
  of neither list, a feature on a historical layer, and a click.
\<close>

definition buildingFeature :: "nat Feature" where
  "buildingFeature =
     \<lparr>layer = Some \<lparr>layer_id = ''buildings''\<rparr>,
      geometry = Some \<lparr>geometry_type = ''Point'',
                       geometry_coordinates = [Number 12.5, Number 41.9]\<rparr>,
      properties = 7\<rparr>"

definition footprintFeature :: "nat Feature" where
  "footprintFeature =
     \<lparr>layer = Some \<lparr>layer_id = ''shared''\<rparr>,
      geometry = Some \<lparr>geometry_type = ''Polygon'', geometry_coordinates = []\<rparr>,
      properties = 8\<rparr>"

definition strayFeature :: "nat Feature" where
  "strayFeature =
     \<lparr>layer = Some \<lparr>layer_id = ''roads''\<rparr>, geometry = None, properties = 9\<rparr>"

definition oldMapFeature :: "nat Feature" where
  "oldMapFeature =
     \<lparr>layer = Some \<lparr>layer_id = ''old-maps''\<rparr>, geometry = None, properties = 10\<rparr>"

definition registry :: "(nat, string) Collaborators" where
  "registry =
     \<lparr>canInteract = (\<lambda>z key. key = ''minZoomForLabelClicks'' \<and> js_le (Number 15) z),
      unclusteredLayerIds = [''buildings'', ''shared''],
      getInteractionLayerIds = [''shared'', ''old-maps''],
      getBuildingLocationInfo =
        (\<lambda>f. \<lparr>coordinates = [Number 0, Number 0], details = ''building''\<rparr>),
      getHistoricalLocationInfo = (\<lambda>f. \<lparr>coordinates = [], details = ''historical''\<rparr>)\<rparr>"

definition emptyRegistry :: "(nat, string) Collaborators" where
  "emptyRegistry = registry\<lparr>unclusteredLayerIds := [], getInteractionLayerIds := []\<rparr>"

definition mapAt :: "real \<Rightarrow> nat Feature list \<Rightarrow> nat MapInstance" where
  "mapAt z fs =
     \<lparr>isStyleLoaded = True, getZoom = Number z, queryRenderedFeatures = (\<lambda>pt ids. fs)\<rparr>"

definition openPanel :: "string LocationInfo \<Rightarrow> PanelState \<Rightarrow> PanelState" where
  "openPanel info ps = ps\<lparr>isOpen := True\<rparr>"

definition propsAt :: "real \<Rightarrow> nat Feature list \<Rightarrow> (nat, string) GlobalClickProps" where
  "propsAt z fs =
     \<lparr>mapInstance = Some (mapAt z fs), onShowDetailedInfo = Some openPanel,
      minZoomLevel = None\<rparr>"

definition click :: MapMouseEvent where
  "click =
     \<lparr>point = (Number 100, Number 200), lngLat = \<lparr>lng = Number 12.4, lat = Number 41.8\<rparr>,
      originalEvent = True\<rparr>"

definition closedPanel :: PanelState where
  "closedPanel = \<lparr>isOpen = False, isFullscreen = False, showOverview = False\<rparr>"

definition halfOpenPanel :: PanelState where
  "halfOpenPanel = \<lparr>isOpen = True, isFullscreen = False, showOverview = False\<rparr>"

text \<open>An \<open>off\<close> that throws and leaves the listener attached.\<close>

definition failingOff :: "listener \<Rightarrow> MapEvented \<Rightarrow> string option \<times> MapEvented" where
  "failingOff h m = (Some ''detach failed'', m)"

definition registeredHook :: "string hook_state" where
  "registeredHook =
     \<lparr>hasRegisteredRef = True,
      maps = (\<lambda>_. \<lparr>styleLoaded = True, clickListeners = [1], styleLoadOnce = []\<rparr>),
      console = []\<rparr>"

section \<open>Properties of the click handler\<close>

lemmas handler_defs = handleGlobalClick_def dispatchFeature_def claimEvent_def
  displayCoordinates_def queryInteractiveFeatures_def setState_def emit_def noFeatures_def

lemmas sample_defs = buildingFeature_def footprintFeature_def strayFeature_def
  oldMapFeature_def registry_def
  emptyRegistry_def mapAt_def openPanel_def propsAt_def click_def closedPanel_def
  halfOpenPanel_def minZoomLevelOf_def

text \<open>
  C1. A click that the handler takes up at a qualifying zoom (a map instance and a
  callback are there, the style is loaded, the policy approves the zoom and the zoom
  is above the minimum) while the panel store reads \<open>isOpen = true\<close> and
  \<open>isFullscreen = false\<close>: the handler writes the store, which becomes
  \<open>{isOpen: true, isFullscreen: true, showOverview: true}\<close>; that write is its only
  effect, so the feature query is not performed and the detail callback is not invoked,
  whatever the map would return under the click point.
\<close>

theorem panel_expand_priority:
  assumes "mapInstance props = Some m" and "onShowDetailedInfo props = Some callback"
    and "isStyleLoaded m"
    and "canInteract env (getZoom m) ''minZoomForLabelClicks''"
    and "\<not> js_le (getZoom m) (minZoomLevelOf props)"
    and "isOpen ps" and "\<not> isFullscreen ps"
  shows "\<exists>w'. handleGlobalClick env props e ps = (ReturnFalse, w')
           \<and> store w' = \<lparr>isOpen = True, isFullscreen = True, showOverview = True\<rparr>
           \<and> effects w' = [PanelSetState None (Some True) (Some True)]
           \<and> (\<forall>pt ids. QueryRenderedFeatures pt ids \<notin> set (effects w'))
           \<and> (\<forall>info. ShowDetailedInfo info \<notin> set (effects w'))"
  using assms by (simp add: handleGlobalClick_def setState_def emit_def)

theorem panel_expand_priority_witness:
  "isOpen halfOpenPanel \<and> \<not> isFullscreen halfOpenPanel
   \<and> \<not> js_le (getZoom (mapAt 18 [buildingFeature]))
          (minZoomLevelOf (propsAt 18 [buildingFeature]))
   \<and> (\<exists>w'. handleGlobalClick registry (propsAt 18 [buildingFeature]) click halfOpenPanel
               = (ReturnFalse, w')
          \<and> store w' = \<lparr>isOpen = True, isFullscreen = True, showOverview = True\<rparr>
          \<and> effects w' = [PanelSetState None (Some True) (Some True)]
          \<and> (\<forall>pt ids. QueryRenderedFeatures pt ids \<notin> set (effects w'))
          \<and> (\<forall>info. ShowDetailedInfo info \<notin> set (effects w')))"
proof -
  have h: "mapInstance (propsAt 18 [buildingFeature]) = Some (mapAt 18 [buildingFeature])"
    "onShowDetailedInfo (propsAt 18 [buildingFeature]) = Some openPanel"
    "isStyleLoaded (mapAt 18 [buildingFeature])"
    "canInteract registry (getZoom (mapAt 18 [buildingFeature])) ''minZoomForLabelClicks''"
    "\<not> js_le (getZoom (mapAt 18 [buildingFeature]))
        (minZoomLevelOf (propsAt 18 [buildingFeature]))"
    "isOpen halfOpenPanel" "\<not> isFullscreen halfOpenPanel"
    by (simp_all add: sample_defs)
  from panel_expand_priority [OF h, of click] h show ?thesis by blast
qed

text \<open>
  C2. When the policy predicate rejects the current zoom under the key
  \<open>minZoomForLabelClicks\<close>, or the current zoom is less than or equal to the minimum
  zoom level (17 unless given), the handler aborts silently: it returns
  \<open>undefined\<close>, leaves the panel store as it was and has no effect at all: no callback,
  no store write, no claim on the event.
\<close>

theorem zoom_gate_aborts:
  assumes "mapInstance props = Some m"
    and "\<not> canInteract env (getZoom m) ''minZoomForLabelClicks''
         \<or> js_le (getZoom m) (minZoomLevelOf props)"
  shows "handleGlobalClick env props e ps = (ReturnUndefined, \<lparr>store = ps, effects = []\<rparr>)"
  using assms
  by (cases "onShowDetailedInfo props") (auto simp add: handleGlobalClick_def Let_def)

theorem zoom_gate_aborts_witness:
  "minZoomLevelOf (propsAt 17 [buildingFeature]) = Number 17
   \<and> js_le (getZoom (mapAt 17 [buildingFeature]))
        (minZoomLevelOf (propsAt 17 [buildingFeature]))
   \<and> handleGlobalClick registry (propsAt 17 [buildingFeature]) click closedPanel
       = (ReturnUndefined, \<lparr>store = closedPanel, effects = []\<rparr>)"
proof -
  have h1: "mapInstance (propsAt 17 [buildingFeature]) = Some (mapAt 17 [buildingFeature])"
    by (simp add: sample_defs)
  have h2: "js_le (getZoom (mapAt 17 [buildingFeature]))
              (minZoomLevelOf (propsAt 17 [buildingFeature]))"
    by (simp add: sample_defs)
  have h3: "minZoomLevelOf (propsAt 17 [buildingFeature]) = Number 17"
    by (simp add: sample_defs)
  from zoom_gate_aborts [OF h1 disjI2 [OF h2], of registry click closedPanel] h2 h3
  show ?thesis by blast
qed

lemma dispatch_callback:
  assumes "dispatchFeature env callback e feature lid w = (r, w')"
    and "ShowDetailedInfo info \<in> set (effects w')"
    and "\<forall>i. ShowDetailedInfo i \<notin> set (effects w)"
    and "lid \<in> set (unclusteredLayerIds env)"
  shows "info = (getBuildingLocationInfo env feature)\<lparr>coordinates := displayCoordinates feature e\<rparr>"
  using assms
  by (auto simp add: dispatchFeature_def claimEvent_def emit_def Let_def split: if_splits)

text \<open>
  C3. When the topmost queried feature lies on a building layer and the detail callback
  fires, the record it receives is the building extractor's record with the
  coordinates overwritten: by the coordinates of the feature's geometry when that is a
  \<open>Point\<close>, and by the click's longitude and latitude otherwise (another geometry
  type, or no geometry).
\<close>

theorem building_coordinates:
  assumes "fst (queryInteractiveFeatures env (mapInstance props) (point e)
                  \<lparr>store = ps, effects = []\<rparr>) = Some (feature # rest)"
    and "layer feature = Some l"
    and "layer_id l \<in> set (unclusteredLayerIds env)"
    and "handleGlobalClick env props e ps = (r, w')"
    and "ShowDetailedInfo info \<in> set (effects w')"
  shows "info = (getBuildingLocationInfo env feature)
                  \<lparr>coordinates :=
                     (case geometry feature of
                        None \<Rightarrow> [lng (lngLat e), lat (lngLat e)]
                      | Some g \<Rightarrow> if geometry_type g = ''Point'' then geometry_coordinates g
                                  else [lng (lngLat e), lat (lngLat e)])\<rparr>"
proof -
  obtain fs w1 where q: "queryInteractiveFeatures env (mapInstance props) (point e)
                  \<lparr>store = ps, effects = []\<rparr> = (fs, w1)"
    by (cases "queryInteractiveFeatures env (mapInstance props) (point e)
                  \<lparr>store = ps, effects = []\<rparr>")
  with assms(1) have fs: "fs = Some (feature # rest)" by simp
  have w1: "\<forall>i. ShowDetailedInfo i \<notin> set (effects w1)"
    using q by (auto simp add: queryInteractiveFeatures_def emit_def Let_def
        split: if_splits option.splits)
  from assms(4,5) obtain callback where
    d: "dispatchFeature env callback e feature (layer_id l) w1 = (r, w')"
    using q fs assms(2) w1
    by (auto simp add: handleGlobalClick_def Let_def noFeatures_def setState_def emit_def
        split: option.splits if_splits)
  from dispatch_callback [OF d assms(5) w1 assms(3)]
  show ?thesis by (simp add: displayCoordinates_def)
qed

theorem building_coordinates_witness:
  "fst (queryInteractiveFeatures registry (mapInstance (propsAt 18 [buildingFeature]))
          (point click) \<lparr>store = closedPanel, effects = []\<rparr>) = Some [buildingFeature]
   \<and> ''buildings'' \<in> set (unclusteredLayerIds registry)
   \<and> ShowDetailedInfo \<lparr>coordinates = [Number 12.5, Number 41.9], details = ''building''\<rparr>
       \<in> set (effects (snd (handleGlobalClick registry (propsAt 18 [buildingFeature]) click
                               closedPanel)))
   \<and> \<lparr>coordinates = [Number 12.5, Number 41.9], details = ''building''\<rparr>
       = (getBuildingLocationInfo registry buildingFeature)
           \<lparr>coordinates := [Number 12.5, Number 41.9]\<rparr>"
proof -
  have h1: "fst (queryInteractiveFeatures registry (mapInstance (propsAt 18 [buildingFeature]))
          (point click) \<lparr>store = closedPanel, effects = []\<rparr>) = Some (buildingFeature # [])"
    by (simp add: sample_defs queryInteractiveFeatures_def emit_def)
  have h2: "layer buildingFeature = Some \<lparr>layer_id = ''buildings''\<rparr>"
    by (simp add: sample_defs)
  have h3: "layer_id \<lparr>layer_id = ''buildings''\<rparr> \<in> set (unclusteredLayerIds registry)"
    by (simp add: sample_defs)
  have h4: "handleGlobalClick registry (propsAt 18 [buildingFeature]) click closedPanel
        = (fst (handleGlobalClick registry (propsAt 18 [buildingFeature]) click closedPanel),
           snd (handleGlobalClick registry (propsAt 18 [buildingFeature]) click closedPanel))"
    by simp
  have h5: "ShowDetailedInfo \<lparr>coordinates = [Number 12.5, Number 41.9], details = ''building''\<rparr>
       \<in> set (effects (snd (handleGlobalClick registry (propsAt 18 [buildingFeature]) click
                               closedPanel)))"
    by (simp add: handler_defs sample_defs Let_def)
  have g: "geometry buildingFeature
      = Some \<lparr>geometry_type = ''Point'', geometry_coordinates = [Number 12.5, Number 41.9]\<rparr>"
    by (simp add: sample_defs)
  from building_coordinates [OF h1 h2 h3 h4 h5] h1 h3 h5 g show ?thesis by simp
qed

text \<open>
  C6. A click that reaches classification with a topmost feature whose layer id is
  resolvable (the feature has a layer, and its id is not the empty string) and belongs
  to neither the building list nor the historical list: the handler has claimed the
  event first (\<open>preventDefault\<close> on the map event and, where there is a native event,
  \<open>preventDefault\<close>, \<open>stopPropagation\<close> and \<open>stopImmediatePropagation\<close> on it), then
  emits the console warning with the layer id, and returns without invoking the detail
  callback or writing the store.
\<close>

theorem unclassified_layer_warns:
  assumes "mapInstance props = Some m" and "onShowDetailedInfo props = Some callback"
    and "isStyleLoaded m"
    and "canInteract env (getZoom m) ''minZoomForLabelClicks''"
    and "\<not> js_le (getZoom m) (minZoomLevelOf props)"
    and "\<not> (isOpen ps \<and> \<not> isFullscreen ps)"
    and "fst (queryInteractiveFeatures env (mapInstance props) (point e)
                \<lparr>store = ps, effects = []\<rparr>) = Some (feature # rest)"
    and "layer feature = Some l" and "layer_id l \<noteq> []"
    and "layer_id l \<notin> set (unclusteredLayerIds env)"
    and "layer_id l \<notin> set (getInteractionLayerIds env)"
  shows "\<exists>w'. handleGlobalClick env props e ps = (ReturnFalse, w')
           \<and> store w' = ps
           \<and> effects w' =
               [QueryRenderedFeatures (point e)
                  (unclusteredLayerIds env @ getInteractionLayerIds env), PreventDefault]
               @ (if originalEvent e
                  then [OriginalPreventDefault, OriginalStopPropagation,
                        OriginalStopImmediatePropagation]
                  else [])
               @ [ConsoleWarnLayer (layer_id l)]
           \<and> (\<forall>info. ShowDetailedInfo info \<notin> set (effects w'))"
  using assms
  by (auto simp add: handler_defs Let_def split: if_splits)

theorem unclassified_layer_warns_witness:
  "fst (queryInteractiveFeatures registry (mapInstance (propsAt 18 [strayFeature])) (point click)
          \<lparr>store = closedPanel, effects = []\<rparr>) = Some [strayFeature]
   \<and> ''roads'' \<notin> set (unclusteredLayerIds registry)
   \<and> ''roads'' \<notin> set (getInteractionLayerIds registry)
   \<and> (\<exists>w'. handleGlobalClick registry (propsAt 18 [strayFeature]) click closedPanel
               = (ReturnFalse, w')
          \<and> store w' = closedPanel
          \<and> effects w' =
              [QueryRenderedFeatures (point click)
                 [''buildings'', ''shared'', ''shared'', ''old-maps''],
               PreventDefault, OriginalPreventDefault, OriginalStopPropagation,
               OriginalStopImmediatePropagation, ConsoleWarnLayer ''roads'']
          \<and> (\<forall>info. ShowDetailedInfo info \<notin> set (effects w')))"
proof -
  have h: "mapInstance (propsAt 18 [strayFeature]) = Some (mapAt 18 [strayFeature])"
    "onShowDetailedInfo (propsAt 18 [strayFeature]) = Some openPanel"
    "isStyleLoaded (mapAt 18 [strayFeature])"
    "canInteract registry (getZoom (mapAt 18 [strayFeature])) ''minZoomForLabelClicks''"
    "\<not> js_le (getZoom (mapAt 18 [strayFeature])) (minZoomLevelOf (propsAt 18 [strayFeature]))"
    "\<not> (isOpen closedPanel \<and> \<not> isFullscreen closedPanel)"
    "fst (queryInteractiveFeatures registry (mapInstance (propsAt 18 [strayFeature]))
            (point click) \<lparr>store = closedPanel, effects = []\<rparr>) = Some (strayFeature # [])"
    "layer strayFeature = Some \<lparr>layer_id = ''roads''\<rparr>"
    "layer_id \<lparr>layer_id = ''roads''\<rparr> \<noteq> []"
    "layer_id \<lparr>layer_id = ''roads''\<rparr> \<notin> set (unclusteredLayerIds registry)"
    "layer_id \<lparr>layer_id = ''roads''\<rparr> \<notin> set (getInteractionLayerIds registry)"
    by (simp_all add: sample_defs queryInteractiveFeatures_def emit_def)
  have c: "originalEvent click" "unclusteredLayerIds registry @ getInteractionLayerIds registry
      = [''buildings'', ''shared'', ''shared'', ''old-maps'']"
    by (simp_all add: sample_defs)
  from unclassified_layer_warns [OF h] obtain w' where
    "handleGlobalClick registry (propsAt 18 [strayFeature]) click closedPanel = (ReturnFalse, w')"
    "store w' = closedPanel"
    "effects w' =
               [QueryRenderedFeatures (point click)
                  (unclusteredLayerIds registry @ getInteractionLayerIds registry), PreventDefault]
               @ (if originalEvent click
                  then [OriginalPreventDefault, OriginalStopPropagation,
                        OriginalStopImmediatePropagation]
                  else [])
               @ [ConsoleWarnLayer (layer_id \<lparr>layer_id = ''roads''\<rparr>)]"
    "\<forall>info. ShowDetailedInfo info \<notin> set (effects w')"
    by blast
  with h c show ?thesis by simp
qed

text \<open>
  C7. On the panel-expand branch the handler writes the store and returns \<open>false\<close>,
  and calls none of \<open>preventDefault\<close>, \<open>stopPropagation\<close> and
  \<open>stopImmediatePropagation\<close>; the same click with the panel closed goes down the
  feature path, where all four calls are made. Evaluated at a click on a building
  feature at zoom 18.
\<close>

theorem panel_expand_leaves_event_unclaimed:
  "handleGlobalClick registry (propsAt 18 [buildingFeature]) click halfOpenPanel
     = (ReturnFalse,
        \<lparr>store = \<lparr>isOpen = True, isFullscreen = True, showOverview = True\<rparr>,
         effects = [PanelSetState None (Some True) (Some True)]\<rparr>)
   \<and> handleGlobalClick registry (propsAt 18 [buildingFeature]) click closedPanel
     = (ReturnFalse,
        \<lparr>store = \<lparr>isOpen = True, isFullscreen = False, showOverview = False\<rparr>,
         effects =
           [QueryRenderedFeatures (Number 100, Number 200)
              [''buildings'', ''shared'', ''shared'', ''old-maps''],
            PreventDefault, OriginalPreventDefault, OriginalStopPropagation,
            OriginalStopImmediatePropagation,
            CallBuildingExtractor buildingFeature,
            ShowDetailedInfo
              \<lparr>coordinates = [Number 12.5, Number 41.9], details = ''building''\<rparr>]\<rparr>)"
  by (simp add: handler_defs sample_defs Let_def)

theorem panel_expand_leaves_event_unclaimed_witness:
  "PreventDefault
     \<notin> set (effects (snd (handleGlobalClick registry (propsAt 18 [buildingFeature]) click
                             halfOpenPanel)))
   \<and> PreventDefault
     \<in> set (effects (snd (handleGlobalClick registry (propsAt 18 [buildingFeature]) click
                             closedPanel)))"
  using panel_expand_leaves_event_unclaimed by simp

text \<open>
  C8. When the interactive layer id list (building ids followed by the current
  historical ids) is empty, the feature query adapter returns the empty array without
  invoking the spatial query, with or without a map instance. When the map instance is
  absent and the id list is not empty, it returns \<open>undefined\<close>, not an empty array,
  again without invoking the spatial query.
\<close>

theorem query_adapter_short_circuits:
  "(unclusteredLayerIds env @ getInteractionLayerIds env = []
      \<longrightarrow> queryInteractiveFeatures env mi pt w = (Some [], w))
   \<and> (unclusteredLayerIds env @ getInteractionLayerIds env \<noteq> []
      \<longrightarrow> queryInteractiveFeatures env None pt w = (None, w))"
  by (auto simp add: queryInteractiveFeatures_def Let_def)

theorem query_adapter_short_circuits_witness:
  "unclusteredLayerIds emptyRegistry @ getInteractionLayerIds emptyRegistry = []
   \<and> queryInteractiveFeatures emptyRegistry (Some (mapAt 18 [buildingFeature])) (point click)
        \<lparr>store = closedPanel, effects = []\<rparr>
       = (Some [], \<lparr>store = closedPanel, effects = []\<rparr>)
   \<and> queryInteractiveFeatures emptyRegistry None (point click)
        \<lparr>store = closedPanel, effects = []\<rparr>
       = (Some [], \<lparr>store = closedPanel, effects = []\<rparr>)
   \<and> unclusteredLayerIds registry @ getInteractionLayerIds registry \<noteq> []
   \<and> queryInteractiveFeatures registry None (point click) \<lparr>store = closedPanel, effects = []\<rparr>
       = (None, \<lparr>store = closedPanel, effects = []\<rparr>)"
proof -
  have h: "unclusteredLayerIds emptyRegistry @ getInteractionLayerIds emptyRegistry = []"
    "unclusteredLayerIds registry @ getInteractionLayerIds registry \<noteq> []"
    by (simp_all add: sample_defs)
  from query_adapter_short_circuits [of emptyRegistry "Some (mapAt 18 [buildingFeature])"
      "point click" "\<lparr>store = closedPanel, effects = []\<rparr>"]
    query_adapter_short_circuits [of emptyRegistry None
      "point click" "\<lparr>store = closedPanel, effects = []\<rparr>"]
    query_adapter_short_circuits [of registry None
      "point click" "\<lparr>store = closedPanel, effects = []\<rparr>"] h
  show ?thesis by simp
qed

text \<open>
  Without a map instance and with the sample registry, whose id list is not empty, the
  adapter's result is \<open>undefined\<close> and so is not the empty array.
\<close>

theorem query_adapter_absent_map_counterexample:
  "fst (queryInteractiveFeatures registry None (point click)
          \<lparr>store = closedPanel, effects = []\<rparr>) = None
   \<and> fst (queryInteractiveFeatures registry None (point click)
          \<lparr>store = closedPanel, effects = []\<rparr>) \<noteq> Some []"
  by (simp add: queryInteractiveFeatures_def sample_defs)

text \<open>
  C9. The handler returns \<open>false\<close> on exactly three branches: the panel-expand branch,
  the unclassified-layer branch and the success branch. On every other branch (no map
  instance, no callback, style not loaded, zoom gate, no feature, no resolvable layer
  id) it returns \<open>undefined\<close>. The branches are those of \<open>clickBranch\<close>; the three that
  return \<open>false\<close> are told apart by what the handler does: the store write, the console
  warning, the detail callback.
\<close>

theorem return_value_by_branch:
  "(fst (handleGlobalClick env props e ps) = ReturnFalse
      \<longleftrightarrow> clickBranch env props e ps \<in> {PanelExpand, UnclassifiedLayer, Success})
   \<and> (fst (handleGlobalClick env props e ps) = ReturnUndefined
      \<longleftrightarrow> clickBranch env props e ps \<in>
            {NoMapInstance, MissingCallback, StyleNotLoaded, ZoomGateFailed, NoFeatureFound,
             UnresolvableLayerId})
   \<and> (clickBranch env props e ps = PanelExpand
      \<longleftrightarrow> (\<exists>o' f v. PanelSetState o' f v
                      \<in> set (effects (snd (handleGlobalClick env props e ps)))))
   \<and> (clickBranch env props e ps = UnclassifiedLayer
      \<longleftrightarrow> (\<exists>lid. ConsoleWarnLayer lid
                      \<in> set (effects (snd (handleGlobalClick env props e ps)))))
   \<and> (clickBranch env props e ps = Success
      \<longleftrightarrow> (\<exists>info. ShowDetailedInfo info
                      \<in> set (effects (snd (handleGlobalClick env props e ps)))))"
  by (auto simp add: handler_defs clickBranch_def Let_def
      split: option.splits list.splits if_splits)

theorem return_value_by_branch_witness:
  "clickBranch registry (propsAt 18 [buildingFeature]) click halfOpenPanel = PanelExpand
   \<and> fst (handleGlobalClick registry (propsAt 18 [buildingFeature]) click halfOpenPanel)
       = ReturnFalse
   \<and> clickBranch registry (propsAt 18 [strayFeature]) click closedPanel = UnclassifiedLayer
   \<and> fst (handleGlobalClick registry (propsAt 18 [strayFeature]) click closedPanel)
       = ReturnFalse
   \<and> clickBranch registry (propsAt 18 [buildingFeature]) click closedPanel = Success
   \<and> fst (handleGlobalClick registry (propsAt 18 [buildingFeature]) click closedPanel)
       = ReturnFalse
   \<and> clickBranch registry (propsAt 16 [buildingFeature]) click closedPanel = ZoomGateFailed
   \<and> fst (handleGlobalClick registry (propsAt 16 [buildingFeature]) click closedPanel)
       = ReturnUndefined
   \<and> clickBranch registry (propsAt 18 []) click closedPanel = NoFeatureFound
   \<and> fst (handleGlobalClick registry (propsAt 18 []) click closedPanel) = ReturnUndefined"
proof -
  have b: "clickBranch registry (propsAt 18 [buildingFeature]) click halfOpenPanel = PanelExpand"
    "clickBranch registry (propsAt 18 [strayFeature]) click closedPanel = UnclassifiedLayer"
    "clickBranch registry (propsAt 18 [buildingFeature]) click closedPanel = Success"
    "clickBranch registry (propsAt 16 [buildingFeature]) click closedPanel = ZoomGateFailed"
    "clickBranch registry (propsAt 18 []) click closedPanel = NoFeatureFound"
    by (simp_all add: clickBranch_def sample_defs)
  from return_value_by_branch [of registry "propsAt 18 [buildingFeature]" click halfOpenPanel]
    return_value_by_branch [of registry "propsAt 18 [strayFeature]" click closedPanel]
    return_value_by_branch [of registry "propsAt 18 [buildingFeature]" click closedPanel]
    return_value_by_branch [of registry "propsAt 16 [buildingFeature]" click closedPanel]
    return_value_by_branch [of registry "propsAt 18 []" click closedPanel]
    b
  show ?thesis by simp
qed

lemma dispatch_historical:
  assumes "CallHistoricalExtractor g
             \<in> set (effects (snd (dispatchFeature env callback e feature lid w)))"
    and "\<forall>f. CallHistoricalExtractor f \<notin> set (effects w)"
  shows "g = feature \<and> lid \<notin> set (unclusteredLayerIds env)
           \<and> lid \<in> set (getInteractionLayerIds env)"
  using assms
  by (auto simp add: dispatchFeature_def claimEvent_def emit_def Let_def split: if_splits)

lemma query_no_extractor:
  "CallHistoricalExtractor f \<notin> set (effects (snd (queryInteractiveFeatures env mi pt
      \<lparr>store = ps, effects = []\<rparr>)))"
  by (auto simp add: queryInteractiveFeatures_def emit_def Let_def split: option.splits)

lemma historical_only_outside_building_set:
  assumes "CallHistoricalExtractor g \<in> set (effects (snd (handleGlobalClick env props e ps)))"
  shows "\<exists>l. layer g = Some l \<and> layer_id l \<notin> set (unclusteredLayerIds env)
           \<and> layer_id l \<in> set (getInteractionLayerIds env)"
proof -
  obtain fs w1 where q: "queryInteractiveFeatures env (mapInstance props) (point e)
                  \<lparr>store = ps, effects = []\<rparr> = (fs, w1)"
    by (cases "queryInteractiveFeatures env (mapInstance props) (point e)
                  \<lparr>store = ps, effects = []\<rparr>")
  have w1: "\<forall>f. CallHistoricalExtractor f \<notin> set (effects w1)"
    using query_no_extractor [of _ env "mapInstance props" "point e" ps] q by simp
  from assms q w1 obtain callback feature rest l where
    d: "fs = Some (feature # rest)" "layer feature = Some l"
       "CallHistoricalExtractor g
          \<in> set (effects (snd (dispatchFeature env callback e feature (layer_id l) w1)))"
    by (auto simp add: handleGlobalClick_def Let_def noFeatures_def setState_def emit_def
        split: option.splits if_splits list.splits)
  from dispatch_historical [OF d(3) w1] d(2) show ?thesis by simp
qed

lemma building_branch_effects:
  assumes "mapInstance props = Some m" and "onShowDetailedInfo props = Some callback"
    and "isStyleLoaded m"
    and "canInteract env (getZoom m) ''minZoomForLabelClicks''"
    and "\<not> js_le (getZoom m) (minZoomLevelOf props)"
    and "\<not> (isOpen ps \<and> \<not> isFullscreen ps)"
    and "fst (queryInteractiveFeatures env (mapInstance props) (point e)
                \<lparr>store = ps, effects = []\<rparr>) = Some (feature # rest)"
    and "layer feature = Some l" and "layer_id l \<noteq> []"
    and "layer_id l \<in> set (unclusteredLayerIds env)"
  shows "effects (snd (handleGlobalClick env props e ps)) =
           [QueryRenderedFeatures (point e)
              (unclusteredLayerIds env @ getInteractionLayerIds env), PreventDefault]
           @ (if originalEvent e
              then [OriginalPreventDefault, OriginalStopPropagation,
                    OriginalStopImmediatePropagation]
              else [])
           @ [CallBuildingExtractor feature,
              ShowDetailedInfo ((getBuildingLocationInfo env feature)
                                  \<lparr>coordinates := displayCoordinates feature e\<rparr>)]"
  using assms
  by (auto simp add: handleGlobalClick_def dispatchFeature_def claimEvent_def
      queryInteractiveFeatures_def emit_def noFeatures_def Let_def split: if_splits)

text \<open>
  C10. Classification tests the building list first. A click that reaches it with a
  topmost feature whose layer id is in the building list and in the historical list
  runs the building extractor, passes its record to the callback, and does not run the
  historical extractor. Whenever the historical extractor runs, it runs on a feature
  whose layer id is in the historical list and not in the building list.
\<close>

theorem building_extractor_first:
  "(mapInstance props = Some m \<and> onShowDetailedInfo props = Some callback
      \<and> isStyleLoaded m
      \<and> canInteract env (getZoom m) ''minZoomForLabelClicks''
      \<and> \<not> js_le (getZoom m) (minZoomLevelOf props)
      \<and> \<not> (isOpen ps \<and> \<not> isFullscreen ps)
      \<and> fst (queryInteractiveFeatures env (mapInstance props) (point e)
                \<lparr>store = ps, effects = []\<rparr>) = Some (feature # rest)
      \<and> layer feature = Some l \<and> layer_id l \<noteq> []
      \<and> layer_id l \<in> set (unclusteredLayerIds env)
      \<and> layer_id l \<in> set (getInteractionLayerIds env)
    \<longrightarrow> CallBuildingExtractor feature
          \<in> set (effects (snd (handleGlobalClick env props e ps)))
        \<and> (\<forall>g. CallHistoricalExtractor g
                 \<notin> set (effects (snd (handleGlobalClick env props e ps))))
        \<and> ShowDetailedInfo
            ((getBuildingLocationInfo env feature)
               \<lparr>coordinates := displayCoordinates feature e\<rparr>)
          \<in> set (effects (snd (handleGlobalClick env props e ps))))
   \<and> (\<forall>g. CallHistoricalExtractor g \<in> set (effects (snd (handleGlobalClick env props e ps)))
          \<longrightarrow> (\<exists>l. layer g = Some l
                 \<and> layer_id l \<notin> set (unclusteredLayerIds env)
                 \<and> layer_id l \<in> set (getInteractionLayerIds env)))"
proof (intro conjI impI allI)
  fix g
  assume "CallHistoricalExtractor g \<in> set (effects (snd (handleGlobalClick env props e ps)))"
  then show "\<exists>l. layer g = Some l \<and> layer_id l \<notin> set (unclusteredLayerIds env)
           \<and> layer_id l \<in> set (getInteractionLayerIds env)"
    by (rule historical_only_outside_building_set)
next
  assume a: "mapInstance props = Some m \<and> onShowDetailedInfo props = Some callback
      \<and> isStyleLoaded m
      \<and> canInteract env (getZoom m) ''minZoomForLabelClicks''
      \<and> \<not> js_le (getZoom m) (minZoomLevelOf props)
      \<and> \<not> (isOpen ps \<and> \<not> isFullscreen ps)
      \<and> fst (queryInteractiveFeatures env (mapInstance props) (point e)
                \<lparr>store = ps, effects = []\<rparr>) = Some (feature # rest)
      \<and> layer feature = Some l \<and> layer_id l \<noteq> []
      \<and> layer_id l \<in> set (unclusteredLayerIds env)
      \<and> layer_id l \<in> set (getInteractionLayerIds env)"
  then have eff: "effects (snd (handleGlobalClick env props e ps)) =
           [QueryRenderedFeatures (point e)
              (unclusteredLayerIds env @ getInteractionLayerIds env), PreventDefault]
           @ (if originalEvent e
              then [OriginalPreventDefault, OriginalStopPropagation,
                    OriginalStopImmediatePropagation]
              else [])
           @ [CallBuildingExtractor feature,
              ShowDetailedInfo ((getBuildingLocationInfo env feature)
                                  \<lparr>coordinates := displayCoordinates feature e\<rparr>)]"
    using building_branch_effects [of props m callback env ps e feature rest l] by blast
  show "CallBuildingExtractor feature \<in> set (effects (snd (handleGlobalClick env props e ps)))"
    by (simp add: eff)
  show "ShowDetailedInfo
            ((getBuildingLocationInfo env feature)
               \<lparr>coordinates := displayCoordinates feature e\<rparr>)
          \<in> set (effects (snd (handleGlobalClick env props e ps)))"
    by (simp add: eff)
  fix g
  show "CallHistoricalExtractor g \<notin> set (effects (snd (handleGlobalClick env props e ps)))"
    by (simp add: eff)
qed

theorem building_extractor_first_witness:
  "''shared'' \<in> set (unclusteredLayerIds registry)
   \<and> ''shared'' \<in> set (getInteractionLayerIds registry)
   \<and> CallBuildingExtractor footprintFeature
       \<in> set (effects (snd (handleGlobalClick registry (propsAt 18 [footprintFeature]) click
                               closedPanel)))
   \<and> (\<forall>g. CallHistoricalExtractor g
             \<notin> set (effects (snd (handleGlobalClick registry (propsAt 18 [footprintFeature])
                                     click closedPanel))))
   \<and> CallHistoricalExtractor oldMapFeature
       \<in> set (effects (snd (handleGlobalClick registry (propsAt 18 [oldMapFeature]) click
                               closedPanel)))
   \<and> ''old-maps'' \<notin> set (unclusteredLayerIds registry)"
proof -
  have h: "mapInstance (propsAt 18 [footprintFeature]) = Some (mapAt 18 [footprintFeature])
      \<and> onShowDetailedInfo (propsAt 18 [footprintFeature]) = Some openPanel
      \<and> isStyleLoaded (mapAt 18 [footprintFeature])
      \<and> canInteract registry (getZoom (mapAt 18 [footprintFeature])) ''minZoomForLabelClicks''
      \<and> \<not> js_le (getZoom (mapAt 18 [footprintFeature]))
             (minZoomLevelOf (propsAt 18 [footprintFeature]))
      \<and> \<not> (isOpen closedPanel \<and> \<not> isFullscreen closedPanel)
      \<and> fst (queryInteractiveFeatures registry (mapInstance (propsAt 18 [footprintFeature]))
                (point click) \<lparr>store = closedPanel, effects = []\<rparr>)
          = Some (footprintFeature # [])
      \<and> layer footprintFeature = Some \<lparr>layer_id = ''shared''\<rparr>
      \<and> layer_id \<lparr>layer_id = ''shared''\<rparr> \<noteq> []
      \<and> layer_id \<lparr>layer_id = ''shared''\<rparr> \<in> set (unclusteredLayerIds registry)
      \<and> layer_id \<lparr>layer_id = ''shared''\<rparr> \<in> set (getInteractionLayerIds registry)"
    by (simp add: sample_defs queryInteractiveFeatures_def emit_def)
  have k: "CallHistoricalExtractor oldMapFeature
       \<in> set (effects (snd (handleGlobalClick registry (propsAt 18 [oldMapFeature]) click
                               closedPanel)))"
    by (simp add: handler_defs sample_defs Let_def)
  have l: "layer oldMapFeature = Some \<lparr>layer_id = ''old-maps''\<rparr>"
    by (simp add: sample_defs)
  from building_extractor_first [of "propsAt 18 [footprintFeature]" "mapAt 18 [footprintFeature]"
      openPanel registry closedPanel click footprintFeature "[]" "\<lparr>layer_id = ''shared''\<rparr>"] h
  have a: "CallBuildingExtractor footprintFeature
       \<in> set (effects (snd (handleGlobalClick registry (propsAt 18 [footprintFeature]) click
                               closedPanel)))
     \<and> (\<forall>g. CallHistoricalExtractor g
             \<notin> set (effects (snd (handleGlobalClick registry (propsAt 18 [footprintFeature])
                                     click closedPanel))))"
    by blast
  from building_extractor_first [of "propsAt 18 [oldMapFeature]" "mapAt 18 [oldMapFeature]"
      openPanel registry closedPanel click oldMapFeature "[]" "\<lparr>layer_id = ''old-maps''\<rparr>"] k l
  have c: "''old-maps'' \<notin> set (unclusteredLayerIds registry)"
    by auto
  from a c k h show ?thesis by simp
qed

section \<open>Properties of registration and teardown\<close>

lemmas stmt_defs = skip_def assign_def then_do_def try_catch_def if_then_def callOff_def
  consoleWrite_def

lemmas lifecycle_defs = run_def mounting_def runPendingCleanup_def fireStyleLoad_def
  registrationEffect_def registerEvents_def attachClick_def map_on_def
  map_once_style_load_def map_off_def cleanup_def

text \<open>
  With the flag set, the effect does nothing and hands back no cleanup; a
  \<open>style.load\<close> leaves no one-shot subscription behind.
\<close>

lemma effect_when_registered:
  "hasRegisteredRef s \<Longrightarrow> registrationEffect mapInst h s = (s, None)"
  by (simp add: registrationEffect_def split: option.splits)

lemma style_load_clears_subscriptions:
  "styleLoadOnce (maps (fireStyleLoad mi s) mi) = []"
proof -
  have "styleLoadOnce (maps (fold (attachClick mi) hs t) mi) = styleLoadOnce (maps t mi)"
    for hs and t :: "'a hook_state"
    by (induction hs arbitrary: t) (simp_all add: attachClick_def map_on_def)
  then show ?thesis by (simp add: fireStyleLoad_def Let_def)
qed

text \<open>
  C5. The cleanup never throws, whatever \<open>off\<close> does, and always leaves the
  registration flag false. When the flag was set and \<open>off\<close> throws, the exception is
  caught and written to the console as a warning.
\<close>

theorem teardown_always_resets:
  "fst (cleanup off mi h s) = None
   \<and> \<not> hasRegisteredRef (snd (cleanup off mi h s))
   \<and> (\<forall>error m'. hasRegisteredRef s \<and> off h (maps s mi) = (Some error, m')
         \<longrightarrow> console (snd (cleanup off mi h s))
               = console s @ [ConsoleWarnCleanupFailed error])"
  by (auto simp add: cleanup_def stmt_defs split: prod.splits option.splits)

theorem teardown_always_resets_witness:
  "hasRegisteredRef registeredHook
   \<and> failingOff 1 (maps registeredHook 0) = (Some ''detach failed'', maps registeredHook 0)
   \<and> fst (cleanup failingOff 0 1 registeredHook) = None
   \<and> \<not> hasRegisteredRef (snd (cleanup failingOff 0 1 registeredHook))
   \<and> console (snd (cleanup failingOff 0 1 registeredHook))
       = [ConsoleWarnCleanupFailed ''detach failed'']"
proof -
  have h: "hasRegisteredRef registeredHook"
    "failingOff 1 (maps registeredHook 0) = (Some ''detach failed'', maps registeredHook 0)"
    "console registeredHook = []"
    by (simp_all add: registeredHook_def failingOff_def)
  from teardown_always_resets [of failingOff 0 1 registeredHook] h show ?thesis by simp
qed

text \<open>
  C4. The hook is mounted on map 0 before the style has loaded, with handler 1; the
  handler changes to 2 (a new callback) before \<open>style.load\<close>; then \<open>style.load\<close>
  fires. The cleanup between the two runs finds the flag unset and leaves the first
  one-shot subscription in place, so both subscriptions fire and map 0 ends with the two
  click listeners 1 and 2. Unmounting then detaches listener 2 only: listener 1 stays
  attached while the flag reads false.
\<close>

theorem stale_subscription_attaches_twice:
  "clickListeners
     (maps (hook (run [Render (Some 0) 1, Render (Some 0) 2, StyleLoad 0]
                    (mounting False :: string component))) 0) = [1, 2]
   \<and> clickListeners
     (maps (hook (run [Render (Some 0) 1, Render (Some 0) 2, StyleLoad 0, Unmount]
                    (mounting False :: string component))) 0) = [1]
   \<and> \<not> hasRegisteredRef
     (hook (run [Render (Some 0) 1, Render (Some 0) 2, StyleLoad 0, Unmount]
                    (mounting False :: string component)))"
  by (simp add: lifecycle_defs stmt_defs)

end
